theory Spec2Isabelle
  imports Main "HOL-Library.Word" "HOL-Library.Sublist"
begin

section \<open>Emoji Tic Tac Toe: the view component of App.tsx\<close>

text \<open>
  The repository is one React Native component, \<^verbatim>\<open>App\<close> in
  \<^verbatim>\<open>tic_tac_toe_frontend/App.tsx\<close>. It keeps seven state fields, derives two
  values from them (\<^verbatim>\<open>computedStatus\<close>, \<^verbatim>\<open>canPlay\<close>), and has three operations
  that talk to a server: the mount effect \<^verbatim>\<open>init\<close>, \<^verbatim>\<open>onCellPress\<close> and
  \<^verbatim>\<open>onReset\<close>. Every successful response goes through \<^verbatim>\<open>updateFromPayload\<close>.

  The embedding is by explicit state passing. An operation takes the state it was called
  in and the answers of the network, and returns the state after its last setter together
  with the list of requests it sent. One run of an operation is one step: the interleaving
  of two runs that are in flight at once is not modelled.
\<close>

subsection \<open>Strings\<close>

text \<open>
  A JavaScript string is a sequence of 16-bit code units. \<open>utf16\<close> writes an ASCII
  literal as such a sequence.
\<close>

type_synonym jsstring = "16 word list"

definition utf16 :: "string \<Rightarrow> jsstring" where
  "utf16 cs = map of_char cs"

text \<open>
  \<^verbatim>\<open>String.prototype.trim\<close> removes white space and line terminators from both ends:
  TAB, LF, VT, FF, CR, SP, NBSP, the Unicode space separators, LS, PS and the BOM.
\<close>

definition is_js_space :: "16 word \<Rightarrow> bool" where
  "is_js_space c \<longleftrightarrow>
     c \<in> {0x9, 0xA, 0xB, 0xC, 0xD, 0x20, 0xA0, 0x1680, 0x2000, 0x2001, 0x2002, 0x2003,
          0x2004, 0x2005, 0x2006, 0x2007, 0x2008, 0x2009, 0x200A, 0x2028, 0x2029, 0x202F,
          0x205F, 0x3000, 0xFEFF}"

definition trim :: "jsstring \<Rightarrow> jsstring" where
  "trim s = rev (dropWhile is_js_space (rev (dropWhile is_js_space s)))"

text \<open>\<^verbatim>\<open>s.endsWith(t)\<close> and \<^verbatim>\<open>s.startsWith(t)\<close>, on code units.\<close>

definition endsWith :: "jsstring \<Rightarrow> jsstring \<Rightarrow> bool" where
  "endsWith s t \<longleftrightarrow> suffix t s"

definition startsWith :: "jsstring \<Rightarrow> jsstring \<Rightarrow> bool" where
  "startsWith s t \<longleftrightarrow> prefix t s"

text \<open>
  \<^verbatim>\<open>s.replace(/\/+$/, '')\<close>: the pattern has no \<^verbatim>\<open>g\<close> and no \<^verbatim>\<open>m\<close> flag, so it
  matches once, at the leftmost position from which only slashes (and at least one) follow
  up to the end of the string. That match is the whole run of trailing slashes.
\<close>

definition slash :: "16 word" where
  "slash = 0x2F"

definition strip_trailing_slashes :: "jsstring \<Rightarrow> jsstring" where
  "strip_trailing_slashes s = rev (dropWhile (\<lambda>c. c = slash) (rev s))"

text \<open>The decimal digits of a natural number, as a template literal prints an integer.\<close>

fun decimal :: "nat \<Rightarrow> jsstring" where
  "decimal n = (if n < 10 then [of_nat (48 + n)]
                else decimal (n div 10) @ [of_nat (48 + n mod 10)])"

declare decimal.simps [simp del]

definition decimal_int :: "int \<Rightarrow> jsstring" where
  "decimal_int i = (if i < 0 then 0x2D # decimal (nat (- i)) else decimal (nat i))"

subsection \<open>Values received from the server\<close>

text \<open>
  \<^verbatim>\<open>resp.json()\<close> yields whatever JSON the server sent; the TypeScript type
  \<^verbatim>\<open>Partial<GameStatePayload>\<close> is not checked at run time, which is why
  \<^verbatim>\<open>updateFromPayload\<close> validates. \<open>JUndefined\<close> is the value of a missing
  property. Numbers are the integers that JavaScript prints in plain decimal; an object is
  the list of its own properties, each name once.
\<close>

datatype jsval =
    JUndefined
  | JNull
  | JBool bool
  | JNum int
  | JStr jsstring
  | JArr "jsval list"
  | JObj "(jsstring \<times> jsval) list"

text \<open>
  Property access \<^verbatim>\<open>payload?.name\<close> for the five names the component reads
  (\<^verbatim>\<open>id\<close>, \<^verbatim>\<open>board\<close>, \<^verbatim>\<open>nextPlayer\<close>, \<^verbatim>\<open>winner\<close>, \<^verbatim>\<open>isDraw\<close>). None of
  them is inherited from a prototype, so only an object's own property gives a value;
  \<^verbatim>\<open>null\<close>, \<^verbatim>\<open>undefined\<close>, primitives and arrays give \<^verbatim>\<open>undefined\<close>.
\<close>

fun get_prop :: "jsval \<Rightarrow> jsstring \<Rightarrow> jsval" where
  "get_prop (JObj ps) name = (case map_of ps name of Some v \<Rightarrow> v | None \<Rightarrow> JUndefined)"
| "get_prop _ name = JUndefined"

text \<open>Truthiness, as \<^verbatim>\<open>if (v)\<close>, \<^verbatim>\<open>!v\<close> and \<^verbatim>\<open>Boolean(v)\<close> decide it.\<close>

fun truthy :: "jsval \<Rightarrow> bool" where
  "truthy JUndefined = False"
| "truthy JNull = False"
| "truthy (JBool b) = b"
| "truthy (JNum n) = (n \<noteq> 0)"
| "truthy (JStr s) = (s \<noteq> [])"
| "truthy (JArr xs) = True"
| "truthy (JObj ps) = True"

text \<open>
  \<^verbatim>\<open>String(v)\<close>. On an array it is \<^verbatim>\<open>join(',')\<close>, where \<^verbatim>\<open>null\<close> and
  \<^verbatim>\<open>undefined\<close> elements print as the empty string. On an object it is the inherited
  \<^verbatim>\<open>toString\<close>, which gives \<^verbatim>\<open>[object Object]\<close>, unless the object has an own
  property \<^verbatim>\<open>toString\<close>: a JSON value is never callable, the inherited
  \<^verbatim>\<open>valueOf\<close> returns the object itself, and the conversion throws a TypeError.
  \<open>None\<close> is that throw.
\<close>

fun js_String :: "jsval \<Rightarrow> jsstring option"
  and join_comma :: "jsval list \<Rightarrow> jsstring option" where
  "js_String JUndefined = Some (utf16 ''undefined'')"
| "js_String JNull = Some (utf16 ''null'')"
| "js_String (JBool b) = Some (if b then utf16 ''true'' else utf16 ''false'')"
| "js_String (JNum n) = Some (decimal_int n)"
| "js_String (JStr s) = Some s"
| "js_String (JArr xs) = join_comma xs"
| "js_String (JObj ps) =
     (if utf16 ''toString'' \<in> fst ` set ps then None else Some (utf16 ''[object Object]''))"
| "join_comma [] = Some []"
| "join_comma (x # xs) =
     (case (if x = JUndefined \<or> x = JNull then Some [] else js_String x) of
        None \<Rightarrow> None
      | Some a \<Rightarrow>
          (if xs = [] then Some a
           else (case join_comma xs of None \<Rightarrow> None | Some b \<Rightarrow> Some (a @ 0x2C # b))))"

subsection \<open>The state of the component\<close>

datatype mark = Mark_X | Mark_O

text \<open>
  The seven \<^verbatim>\<open>useState\<close> fields. \<open>gameId\<close> is \<^verbatim>\<open>string | null\<close>. \<open>board\<close> and
  \<open>winner\<close> hold what the server sent, unchecked beyond the board's length, so their
  entries are \<open>jsval\<close>; \<open>nextPlayer\<close> is only ever assigned after a comparison with
  \<^verbatim>\<open>'X'\<close> and \<^verbatim>\<open>'O'\<close>, so it is a \<open>mark\<close>.
\<close>

record state =
  gameId :: "jsstring option"
  board :: "jsval list"
  nextPlayer :: mark
  winner :: jsval
  isDraw :: bool
  isLoading :: bool
  statusMessage :: jsstring

definition initial_state :: state where
  "initial_state =
     \<lparr> gameId = None,
       board = replicate 9 JNull,
       nextPlayer = Mark_X,
       winner = JNull,
       isDraw = False,
       isLoading = True,
       statusMessage = utf16 ''Initializing...'' \<rparr>"

subsection \<open>Rendering\<close>

definition cross_mark :: jsstring where
  "cross_mark = [0x274C]"

definition hollow_circle :: jsstring where
  "hollow_circle = [0x2B55, 0xFE0F]"

definition white_square :: jsstring where
  "white_square = [0x2B1C, 0xFE0F]"

definition toEmoji :: "jsval \<Rightarrow> jsstring" where
  "toEmoji v =
     (if v = JStr (utf16 ''X'') then cross_mark
      else if v = JStr (utf16 ''O'') then hollow_circle
      else white_square)"

definition computedStatus :: "state \<Rightarrow> jsstring" where
  "computedStatus s =
     (if isLoading s then utf16 ''Loading...''
      else if truthy (winner s) then
        utf16 ''Winner: '' @ (if winner s = JStr (utf16 ''X'') then cross_mark else hollow_circle)
      else if isDraw s then utf16 ''Draw!''
      else utf16 ''Turn: '' @ (if nextPlayer s = Mark_X then cross_mark else hollow_circle))"

text \<open>The grid: \<^verbatim>\<open>board.map((cell, idx) => ... toEmoji(cell) ...)\<close>.\<close>

definition rendered_cells :: "state \<Rightarrow> jsstring list" where
  "rendered_cells s = map toEmoji (board s)"

definition canPlay :: "state \<Rightarrow> bool" where
  "canPlay s \<longleftrightarrow> \<not> isLoading s \<and> \<not> truthy (winner s) \<and> \<not> isDraw s"

subsection \<open>Payload adoption\<close>

text \<open>
  \<^verbatim>\<open>updateFromPayload\<close>. The body is inside \<^verbatim>\<open>try { ... } catch { }\<close>. The one
  expression in it that can throw is \<^verbatim>\<open>String(payload.id)\<close>, evaluated before any
  setter is called; when it throws, the catch swallows the error and no field is assigned.
  Otherwise the five statements run in order: three guarded assignments, then
  \<^verbatim>\<open>setWinner(payload?.winner ?? null)\<close> and \<^verbatim>\<open>setIsDraw(Boolean(payload?.isDraw))\<close>
  with no guard.
\<close>

definition nullish_to_null :: "jsval \<Rightarrow> jsval" where
  "nullish_to_null v = (if v = JUndefined \<or> v = JNull then JNull else v)"

definition updateFromPayload :: "jsval \<Rightarrow> state \<Rightarrow> state" where
  "updateFromPayload payload s =
     (if truthy (get_prop payload (utf16 ''id'')) \<and> js_String (get_prop payload (utf16 ''id'')) = None
      then s
      else
        let s1 = (if truthy (get_prop payload (utf16 ''id''))
                  then s\<lparr>gameId := js_String (get_prop payload (utf16 ''id''))\<rparr> else s);
            s2 = (case get_prop payload (utf16 ''board'') of
                    JArr b \<Rightarrow> if length b = 9 then s1\<lparr>board := b\<rparr> else s1
                  | _ \<Rightarrow> s1);
            s3 = (if get_prop payload (utf16 ''nextPlayer'') = JStr (utf16 ''X'')
                  then s2\<lparr>nextPlayer := Mark_X\<rparr>
                  else if get_prop payload (utf16 ''nextPlayer'') = JStr (utf16 ''O'')
                  then s2\<lparr>nextPlayer := Mark_O\<rparr>
                  else s2);
            s4 = s3\<lparr>winner := nullish_to_null (get_prop payload (utf16 ''winner''))\<rparr>
        in s4\<lparr>isDraw := truthy (get_prop payload (utf16 ''isDraw''))\<rparr>)"

subsection \<open>The network\<close>

text \<open>
  What a \<^verbatim>\<open>catch (e)\<close> can receive: an \<^verbatim>\<open>Error\<close> object with its message (the
  ones the component throws itself, the TypeError of a failed \<^verbatim>\<open>fetch\<close>, the SyntaxError
  of \<^verbatim>\<open>resp.json()\<close>), or a value that is not an object with a \<^verbatim>\<open>message\<close>.
\<close>

datatype thrown = Thrown_Error jsstring | Thrown_other

text \<open>
  A response: its status code and what the two body readers give. \<^verbatim>\<open>resp.ok\<close> is
  true exactly for the statuses 200 to 299.
\<close>

record response =
  status :: nat
  text_body :: "thrown + jsstring"
  json_body :: "thrown + jsval"

definition ok :: "response \<Rightarrow> bool" where
  "ok r \<longleftrightarrow> 200 \<le> status r \<and> status r \<le> 299"

text \<open>\<^verbatim>\<open>await fetch(...)\<close> either rejects or resolves with a response.\<close>

datatype fetched = Rejected thrown | Resolved response

datatype http_method = GET | POST

record request =
  req_method :: http_method
  req_url :: jsstring
  req_json_header :: bool
  req_body :: "jsstring option"

text \<open>
  The message a catch block shows:
  \<^verbatim>\<open>(typeof e === 'object' && e && 'message' in e) ? String(e.message) : fallback\<close>.
\<close>

definition error_message :: "thrown \<Rightarrow> jsstring \<Rightarrow> jsstring" where
  "error_message e fallback = (case e of Thrown_Error m \<Rightarrow> m | Thrown_other \<Rightarrow> fallback)"

subsection \<open>Initialisation\<close>

text \<open>
  The mount effect. \<open>isMounted\<close> is the value of the flag when the run resumes after
  its awaits: the try block returns early on it before adopting the payload, and the catch
  and finally blocks set nothing when it is false. The flag is cleared only by the cleanup
  of the effect, that is, when \<^verbatim>\<open>App\<close>, the root component, is unmounted and its state
  discarded.
\<close>

definition init_catch :: "bool \<Rightarrow> thrown \<Rightarrow> state \<Rightarrow> state" where
  "init_catch isMounted e s =
     (if \<not> isMounted then s
      else s\<lparr>statusMessage :=
                utf16 ''Error: '' @ error_message e (utf16 ''Unable to connect to backend'')\<rparr>)"

definition init_finally :: "bool \<Rightarrow> state \<Rightarrow> state" where
  "init_finally isMounted s = (if isMounted then s\<lparr>isLoading := False\<rparr> else s)"

definition health_request :: "jsstring \<Rightarrow> request" where
  "health_request API_BASE =
     \<lparr> req_method = GET, req_url = API_BASE @ utf16 ''/health'',
       req_json_header = False, req_body = None \<rparr>"

definition create_request :: "jsstring \<Rightarrow> request" where
  "create_request API_BASE =
     \<lparr> req_method = POST, req_url = API_BASE @ utf16 ''/games/'',
       req_json_header = True, req_body = None \<rparr>"

definition init :: "jsstring \<Rightarrow> bool \<Rightarrow> fetched \<Rightarrow> fetched \<Rightarrow> state \<Rightarrow> state \<times> request list" where
  "init API_BASE isMounted healthResp createResp s =
     (let s1 = s\<lparr>isLoading := True, statusMessage := utf16 ''Pinging server...''\<rparr> in
      case healthResp of
        Rejected e \<Rightarrow>
          (init_finally isMounted (init_catch isMounted e s1), [health_request API_BASE])
      | Resolved hr \<Rightarrow>
          if \<not> ok hr then
            (init_finally isMounted
               (init_catch isMounted
                  (Thrown_Error (utf16 ''Health check failed: '' @ decimal (status hr))) s1),
             [health_request API_BASE])
          else
            let s2 = s1\<lparr>statusMessage := utf16 ''Creating game...''\<rparr>;
                sent = [health_request API_BASE, create_request API_BASE] in
            (case createResp of
               Rejected e \<Rightarrow> (init_finally isMounted (init_catch isMounted e s2), sent)
             | Resolved cr \<Rightarrow>
                 if \<not> ok cr then
                   (init_finally isMounted
                      (init_catch isMounted
                         (Thrown_Error (utf16 ''Failed to create game: '' @ decimal (status cr)))
                         s2),
                    sent)
                 else
                   (case json_body cr of
                      Inl e \<Rightarrow> (init_finally isMounted (init_catch isMounted e s2), sent)
                    | Inr data \<Rightarrow>
                        if \<not> isMounted then (init_finally isMounted s2, sent)
                        else
                          (init_finally isMounted
                             ((updateFromPayload data s2)
                                \<lparr>statusMessage := utf16 ''Game ready!''\<rparr>),
                           sent))))"

subsection \<open>Moves and reset\<close>

text \<open>
  \<^verbatim>\<open>board[index]\<close>: an index outside the array reads \<^verbatim>\<open>undefined\<close>.
\<close>

definition board_at :: "jsval list \<Rightarrow> int \<Rightarrow> jsval" where
  "board_at b i = (if 0 \<le> i \<and> nat i < length b then b ! nat i else JUndefined)"

text \<open>The catch and finally blocks of the two handlers; they differ in the fallback.\<close>

definition handler_catch :: "jsstring \<Rightarrow> thrown \<Rightarrow> state \<Rightarrow> state" where
  "handler_catch fallback e s =
     s\<lparr>statusMessage := utf16 ''Error: '' @ error_message e fallback\<rparr>"

definition handler_finally :: "state \<Rightarrow> state" where
  "handler_finally s = s\<lparr>isLoading := False\<rparr>"

text \<open>
  The error thrown on a response that is not ok:
  \<^verbatim>\<open>new Error(`<what> failed: ${resp.status} ${text}`.trim())\<close> with
  \<^verbatim>\<open>text = await resp.text().catch(() => '')\<close>.
\<close>

definition failed_error :: "jsstring \<Rightarrow> response \<Rightarrow> thrown" where
  "failed_error what r =
     (let text = (case text_body r of Inr t \<Rightarrow> t | Inl e \<Rightarrow> [])
      in Thrown_Error (trim (what @ utf16 '' failed: '' @ decimal (status r) @ utf16 '' '' @ text)))"

text \<open>\<^verbatim>\<open>JSON.stringify({ index })\<close> for an integer index.\<close>

definition move_body :: "int \<Rightarrow> jsstring" where
  "move_body index = utf16 ''{'' @ [0x22] @ utf16 ''index'' @ [0x22] @ utf16 '':''
                       @ decimal_int index @ utf16 ''}''"

definition move_request :: "jsstring \<Rightarrow> jsstring \<Rightarrow> int \<Rightarrow> request" where
  "move_request API_BASE g index =
     \<lparr> req_method = POST, req_url = API_BASE @ utf16 ''/games/'' @ g @ utf16 ''/move/'',
       req_json_header = True, req_body = Some (move_body index) \<rparr>"

definition reset_request :: "jsstring \<Rightarrow> jsstring \<Rightarrow> request" where
  "reset_request API_BASE g =
     \<lparr> req_method = POST, req_url = API_BASE @ utf16 ''/games/'' @ g @ utf16 ''/reset/'',
       req_json_header = True, req_body = None \<rparr>"

text \<open>
  \<^verbatim>\<open>onCellPress\<close>: three guards, each a plain \<^verbatim>\<open>return\<close>, then the request.
  \<^verbatim>\<open>!gameId\<close> holds for \<^verbatim>\<open>null\<close> and for the empty string.
\<close>

definition onCellPress :: "jsstring \<Rightarrow> int \<Rightarrow> fetched \<Rightarrow> state \<Rightarrow> state \<times> request list" where
  "onCellPress API_BASE index resp s =
     (if \<not> canPlay s then (s, [])
      else case gameId s of
        None \<Rightarrow> (s, [])
      | Some g \<Rightarrow>
          if g = [] then (s, [])
          else if board_at (board s) index \<noteq> JNull then (s, [])
          else
            let s1 = s\<lparr>isLoading := True, statusMessage := utf16 ''Submitting move...''\<rparr>;
                fallback = utf16 ''Move failed'' in
            (handler_finally
               (case resp of
                  Rejected e \<Rightarrow> handler_catch fallback e s1
                | Resolved r \<Rightarrow>
                    if \<not> ok r then handler_catch fallback (failed_error (utf16 ''Move'') r) s1
                    else
                      (case json_body r of
                         Inl e \<Rightarrow> handler_catch fallback e s1
                       | Inr data \<Rightarrow>
                           (updateFromPayload data s1)
                             \<lparr>statusMessage := utf16 ''Move accepted.''\<rparr>)),
             [move_request API_BASE g index]))"

definition onReset :: "jsstring \<Rightarrow> fetched \<Rightarrow> state \<Rightarrow> state \<times> request list" where
  "onReset API_BASE resp s =
     (case gameId s of
        None \<Rightarrow> (s, [])
      | Some g \<Rightarrow>
          if g = [] then (s, [])
          else
            let s1 = s\<lparr>isLoading := True, statusMessage := utf16 ''Resetting game...''\<rparr>;
                fallback = utf16 ''Reset failed'' in
            (handler_finally
               (case resp of
                  Rejected e \<Rightarrow> handler_catch fallback e s1
                | Resolved r \<Rightarrow>
                    if \<not> ok r then handler_catch fallback (failed_error (utf16 ''Reset'') r) s1
                    else
                      (case json_body r of
                         Inl e \<Rightarrow> handler_catch fallback e s1
                       | Inr data \<Rightarrow>
                           (updateFromPayload data s1)
                             \<lparr>statusMessage := utf16 ''Game reset.''\<rparr>)),
             [reset_request API_BASE g]))"

subsection \<open>The base URL\<close>

text \<open>
  \<^verbatim>\<open>API_BASE\<close>, from \<^verbatim>\<open>process.env.EXPO_PUBLIC_BACKEND_URL\<close> (\<open>None\<close> when the
  variable is not set). The test \<^verbatim>\<open>fromEnv && fromEnv.trim().length > 0\<close> trims, the
  value that is used is not trimmed.
\<close>

definition localhost_url :: jsstring where
  "localhost_url = utf16 ''http://localhost:3001''"

definition api_suffix :: jsstring where
  "api_suffix = utf16 ''/api''"

definition API_BASE :: "jsstring option \<Rightarrow> jsstring" where
  "API_BASE fromEnv =
     (let base = (case fromEnv of
                    None \<Rightarrow> localhost_url
                  | Some u \<Rightarrow> if u \<noteq> [] \<and> length (trim u) > 0 then u else localhost_url)
      in if endsWith base api_suffix then base
         else strip_trailing_slashes base @ api_suffix)"

subsection \<open>Runs of the component\<close>

text \<open>
  One step is one complete run of an operation, with any base URL, any index and any
  answer of the network. The reachable states are those the component can be in after
  any number of steps from its initial state.
\<close>

inductive step :: "state \<Rightarrow> state \<Rightarrow> bool" where
  step_init: "step s (fst (init api m h c s))"
| step_press: "step s (fst (onCellPress api i r s))"
| step_reset: "step s (fst (onReset api r s))"

inductive reachable :: "state \<Rightarrow> bool" where
  reachable_initial: "reachable initial_state"
| reachable_step: "reachable s \<Longrightarrow> step s s' \<Longrightarrow> reachable s'"

subsection \<open>Predicates of the specification\<close>

text \<open>
  The validity conditions the specification names for the fields of a payload, and the
  one situation in which adoption stops before its first assignment.
\<close>

definition valid_board :: "jsval \<Rightarrow> bool" where
  "valid_board v \<longleftrightarrow> (case v of JArr b \<Rightarrow> length b = 9 | _ \<Rightarrow> False)"

definition valid_nextPlayer :: "jsval \<Rightarrow> bool" where
  "valid_nextPlayer v \<longleftrightarrow> v = JStr (utf16 ''X'') \<or> v = JStr (utf16 ''O'')"

definition adoption_aborts :: "jsval \<Rightarrow> bool" where
  "adoption_aborts payload \<longleftrightarrow>
     truthy (get_prop payload (utf16 ''id'')) \<and> js_String (get_prop payload (utf16 ''id'')) = None"

subsection \<open>Example values\<close>

text \<open>
  The scenario of the specification: the create-game response
  \<^verbatim>\<open>{id:"g1", board:[null x 9], nextPlayer:"X", winner:null, isDraw:false}\<close>, the
  move response after a tap on cell 4, and the state the component is in between the two.
\<close>

definition g1 :: jsstring where
  "g1 = utf16 ''g1''"

definition scenario_payload :: jsval where
  "scenario_payload =
     JObj [(utf16 ''id'', JStr g1),
           (utf16 ''board'', JArr (replicate 9 JNull)),
           (utf16 ''nextPlayer'', JStr (utf16 ''X'')),
           (utf16 ''winner'', JNull),
           (utf16 ''isDraw'', JBool False)]"

definition board_after_tap :: "jsval list" where
  "board_after_tap =
     [JNull, JNull, JNull, JNull, JStr (utf16 ''X''), JNull, JNull, JNull, JNull]"

definition ready_state :: state where
  "ready_state =
     \<lparr> gameId = Some g1,
       board = replicate 9 JNull,
       nextPlayer = Mark_X,
       winner = JNull,
       isDraw = False,
       isLoading = False,
       statusMessage = utf16 ''Game ready!'' \<rparr>"

definition tapped_state :: state where
  "tapped_state =
     ready_state\<lparr>board := board_after_tap, nextPlayer := Mark_O,
                 statusMessage := utf16 ''Move accepted.''\<rparr>"

text \<open>A response with the given status whose body parses to the given value.\<close>

definition json_response :: "nat \<Rightarrow> jsval \<Rightarrow> response" where
  "json_response code v = \<lparr> status = code, text_body = Inr [], json_body = Inr v \<rparr>"

text \<open>A response with the given status and a plain text body that is not JSON.\<close>

definition text_response :: "nat \<Rightarrow> jsstring \<Rightarrow> response" where
  "text_response code t =
     \<lparr> status = code, text_body = Inr t,
       json_body = Inl (Thrown_Error (utf16 ''JSON Parse error'')) \<rparr>"

text \<open>
  The move response of the scenario, and a response that carries only a board.
\<close>

definition move_payload :: jsval where
  "move_payload =
     JObj [(utf16 ''board'', JArr board_after_tap),
           (utf16 ''nextPlayer'', JStr (utf16 ''O'')),
           (utf16 ''winner'', JNull),
           (utf16 ''isDraw'', JBool False)]"

definition board_only_payload :: jsval where
  "board_only_payload = JObj [(utf16 ''board'', JArr board_after_tap)]"

text \<open>
  A response whose id is the JSON object \<^verbatim>\<open>{"toString": 0}\<close>: truthy, and
  \<^verbatim>\<open>String\<close> of it throws. It has a valid board and no \<^verbatim>\<open>nextPlayer\<close>.
\<close>

definition unconvertible_id :: jsval where
  "unconvertible_id = JObj [(utf16 ''toString'', JNum 0)]"

definition unconvertible_id_payload :: jsval where
  "unconvertible_id_payload =
     JObj [(utf16 ''id'', unconvertible_id),
           (utf16 ''board'', JArr board_after_tap),
           (utf16 ''winner'', JNull),
           (utf16 ''isDraw'', JBool False)]"

text \<open>States of a finished game.\<close>

definition won_state :: state where
  "won_state = tapped_state\<lparr>winner := JStr (utf16 ''X'')\<rparr>"

definition drawn_state :: state where
  "drawn_state = tapped_state\<lparr>isDraw := True\<rparr>"

definition api_example :: jsstring where
  "api_example = utf16 ''http://localhost:3001/api''"

section \<open>Properties\<close>

subsection \<open>What payload adoption assigns\<close>

text \<open>
  When the conversion of the id throws, nothing is assigned. Otherwise each field of the
  state has the value the five statements give it.
\<close>


lemma upd_aborts: "adoption_aborts p \<Longrightarrow> updateFromPayload p s = s"
  by (simp add: adoption_aborts_def updateFromPayload_def)

lemma upd_gameId:
  "\<not> adoption_aborts p \<Longrightarrow>
   gameId (updateFromPayload p s) =
     (if truthy (get_prop p (utf16 ''id'')) then js_String (get_prop p (utf16 ''id'')) else gameId s)"
  by (auto simp add: adoption_aborts_def updateFromPayload_def Let_def split: jsval.splits)

lemma upd_board:
  "\<not> adoption_aborts p \<Longrightarrow>
   board (updateFromPayload p s) =
     (case get_prop p (utf16 ''board'') of JArr b \<Rightarrow> if length b = 9 then b else board s | _ \<Rightarrow> board s)"
  by (auto simp add: adoption_aborts_def updateFromPayload_def Let_def split: jsval.splits)

lemma upd_nextPlayer:
  "\<not> adoption_aborts p \<Longrightarrow>
   nextPlayer (updateFromPayload p s) =
     (if get_prop p (utf16 ''nextPlayer'') = JStr (utf16 ''X'') then Mark_X
      else if get_prop p (utf16 ''nextPlayer'') = JStr (utf16 ''O'') then Mark_O
      else nextPlayer s)"
  by (auto simp add: adoption_aborts_def updateFromPayload_def Let_def split: jsval.splits)

lemma upd_winner:
  "\<not> adoption_aborts p \<Longrightarrow>
   winner (updateFromPayload p s) = nullish_to_null (get_prop p (utf16 ''winner''))"
  by (auto simp add: adoption_aborts_def updateFromPayload_def Let_def split: jsval.splits)

lemma upd_isDraw:
  "\<not> adoption_aborts p \<Longrightarrow>
   isDraw (updateFromPayload p s) = truthy (get_prop p (utf16 ''isDraw''))"
  by (auto simp add: adoption_aborts_def updateFromPayload_def Let_def split: jsval.splits)

lemma upd_isLoading: "isLoading (updateFromPayload p s) = isLoading s"
  by (simp add: updateFromPayload_def Let_def split: jsval.splits)

lemma upd_statusMessage: "statusMessage (updateFromPayload p s) = statusMessage s"
  by (simp add: updateFromPayload_def Let_def split: jsval.splits)

lemma upd_board_length:
  "length (board s) = 9 \<Longrightarrow> length (board (updateFromPayload p s)) = 9"
  by (cases "adoption_aborts p") (simp_all add: upd_aborts upd_board split: jsval.splits)

lemma upd_gameId_kept:
  "gameId s \<noteq> None \<Longrightarrow> gameId (updateFromPayload p s) \<noteq> None"
  by (cases "adoption_aborts p") (auto simp add: upd_aborts upd_gameId adoption_aborts_def)

lemma valid_board_iff: "valid_board v \<longleftrightarrow> (\<exists>b. v = JArr b \<and> length b = 9)"
  by (cases v) (simp_all add: valid_board_def)

lemma upd_board_invalid:
  "\<not> valid_board (get_prop p (utf16 ''board'')) \<Longrightarrow> board (updateFromPayload p s) = board s"
  by (cases "adoption_aborts p")
     (auto simp add: upd_aborts upd_board valid_board_def split: jsval.splits)

lemma upd_nextPlayer_invalid:
  "\<not> valid_nextPlayer (get_prop p (utf16 ''nextPlayer'')) \<Longrightarrow>
   nextPlayer (updateFromPayload p s) = nextPlayer s"
  by (cases "adoption_aborts p")
     (auto simp add: upd_aborts upd_nextPlayer valid_nextPlayer_def)

lemma upd_gameId_invalid:
  "\<not> truthy (get_prop p (utf16 ''id'')) \<Longrightarrow> gameId (updateFromPayload p s) = gameId s"
  by (cases "adoption_aborts p") (auto simp add: upd_aborts upd_gameId)

text \<open>
  Claim C1, as amended. Payload adoption validates \<^verbatim>\<open>id\<close>, \<^verbatim>\<open>board\<close> and
  \<^verbatim>\<open>nextPlayer\<close> before it assigns them: the id must be truthy, the board an array of
  exactly 9 elements, nextPlayer one of \<^verbatim>\<open>'X'\<close> and \<^verbatim>\<open>'O'\<close>. An invalid or
  missing one of the three is skipped without an error and leaves gameId, board or
  nextPlayer as it was; a valid one is assigned. The fields winner and isDraw are not
  validated and not skipped: winner becomes the payload's winner, or null when that is
  missing, and isDraw becomes the truth value of the payload's isDraw, false when that is
  missing. All of this is unless the conversion of a truthy id to a string throws; then
  adoption stops there and assigns nothing.
\<close>

theorem adoption_validates_fields:
  "(\<not> truthy (get_prop p (utf16 ''id'')) \<longrightarrow> gameId (updateFromPayload p s) = gameId s)
   \<and> (\<not> valid_board (get_prop p (utf16 ''board'')) \<longrightarrow>
        board (updateFromPayload p s) = board s)
   \<and> (\<not> valid_nextPlayer (get_prop p (utf16 ''nextPlayer'')) \<longrightarrow>
        nextPlayer (updateFromPayload p s) = nextPlayer s)
   \<and> (\<not> adoption_aborts p \<longrightarrow>
        (truthy (get_prop p (utf16 ''id'')) \<longrightarrow>
           gameId (updateFromPayload p s) = js_String (get_prop p (utf16 ''id'')))
        \<and> (valid_board (get_prop p (utf16 ''board'')) \<longrightarrow>
           JArr (board (updateFromPayload p s)) = get_prop p (utf16 ''board''))
        \<and> (valid_nextPlayer (get_prop p (utf16 ''nextPlayer'')) \<longrightarrow>
           JStr (utf16 (if nextPlayer (updateFromPayload p s) = Mark_X then ''X'' else ''O''))
             = get_prop p (utf16 ''nextPlayer''))
        \<and> winner (updateFromPayload p s) = nullish_to_null (get_prop p (utf16 ''winner''))
        \<and> isDraw (updateFromPayload p s) = truthy (get_prop p (utf16 ''isDraw'')))
   \<and> (adoption_aborts p \<longrightarrow> updateFromPayload p s = s)"
proof (intro conjI impI)
  assume "\<not> adoption_aborts p" and "valid_board (get_prop p (utf16 ''board''))"
  then show "JArr (board (updateFromPayload p s)) = get_prop p (utf16 ''board'')"
    by (auto simp add: upd_board valid_board_iff)
next
  assume "\<not> adoption_aborts p" and "valid_nextPlayer (get_prop p (utf16 ''nextPlayer''))"
  then show "JStr (utf16 (if nextPlayer (updateFromPayload p s) = Mark_X then ''X'' else ''O''))
             = get_prop p (utf16 ''nextPlayer'')"
    by (auto simp add: upd_nextPlayer valid_nextPlayer_def utf16_def)
qed (simp_all add: upd_gameId_invalid upd_board_invalid upd_nextPlayer_invalid
       upd_gameId upd_winner upd_isDraw upd_aborts)

theorem adoption_validates_fields_witness:
  "(\<not> truthy (get_prop board_only_payload (utf16 ''id''))
    \<and> \<not> valid_nextPlayer (get_prop board_only_payload (utf16 ''nextPlayer''))
    \<and> valid_board (get_prop board_only_payload (utf16 ''board''))
    \<and> \<not> adoption_aborts board_only_payload
    \<and> gameId (updateFromPayload board_only_payload ready_state) = Some g1
    \<and> nextPlayer (updateFromPayload board_only_payload ready_state) = Mark_X
    \<and> board (updateFromPayload board_only_payload ready_state) = board_after_tap
    \<and> winner (updateFromPayload board_only_payload ready_state) = JNull
    \<and> isDraw (updateFromPayload board_only_payload ready_state) = False)
   \<and> (truthy (get_prop scenario_payload (utf16 ''id''))
    \<and> valid_nextPlayer (get_prop scenario_payload (utf16 ''nextPlayer''))
    \<and> \<not> adoption_aborts scenario_payload
    \<and> gameId (updateFromPayload scenario_payload initial_state) = Some g1
    \<and> nextPlayer (updateFromPayload scenario_payload initial_state) = Mark_X)
   \<and> (\<not> valid_board (get_prop (JStr g1) (utf16 ''board''))
    \<and> board (updateFromPayload (JStr g1) tapped_state) = board_after_tap)
   \<and> (adoption_aborts unconvertible_id_payload
    \<and> updateFromPayload unconvertible_id_payload ready_state = ready_state)"
proof -
  have first: "\<not> truthy (get_prop board_only_payload (utf16 ''id''))
    \<and> \<not> valid_nextPlayer (get_prop board_only_payload (utf16 ''nextPlayer''))
    \<and> valid_board (get_prop board_only_payload (utf16 ''board''))
    \<and> \<not> adoption_aborts board_only_payload
    \<and> gameId (updateFromPayload board_only_payload ready_state) = Some g1
    \<and> nextPlayer (updateFromPayload board_only_payload ready_state) = Mark_X
    \<and> board (updateFromPayload board_only_payload ready_state) = board_after_tap
    \<and> winner (updateFromPayload board_only_payload ready_state) = JNull
    \<and> isDraw (updateFromPayload board_only_payload ready_state) = False"
    using adoption_validates_fields [of board_only_payload ready_state]
    by (simp add: board_only_payload_def ready_state_def valid_board_def valid_nextPlayer_def
        adoption_aborts_def nullish_to_null_def utf16_def board_after_tap_def)
  have second: "truthy (get_prop scenario_payload (utf16 ''id''))
    \<and> valid_nextPlayer (get_prop scenario_payload (utf16 ''nextPlayer''))
    \<and> \<not> adoption_aborts scenario_payload
    \<and> gameId (updateFromPayload scenario_payload initial_state) = Some g1
    \<and> nextPlayer (updateFromPayload scenario_payload initial_state) = Mark_X"
    using adoption_validates_fields [of scenario_payload initial_state]
    by (auto simp add: scenario_payload_def valid_nextPlayer_def adoption_aborts_def utf16_def
        g1_def split: if_splits)
  have third: "\<not> valid_board (get_prop (JStr g1) (utf16 ''board''))
    \<and> board (updateFromPayload (JStr g1) tapped_state) = board_after_tap"
    using adoption_validates_fields [of "JStr g1" tapped_state]
    by (simp add: valid_board_def tapped_state_def)
  have fourth: "adoption_aborts unconvertible_id_payload
    \<and> updateFromPayload unconvertible_id_payload ready_state = ready_state"
    using adoption_validates_fields [of unconvertible_id_payload ready_state]
    by (simp add: adoption_aborts_def unconvertible_id_payload_def unconvertible_id_def utf16_def)
  from first second third fourth show ?thesis by blast
qed

text \<open>
  The claim as it was stated fails for winner and isDraw: a payload with a board and
  nothing else, adopted after a won game, clears the winner, and adopted after a draw,
  clears isDraw, although both fields are missing from the payload.
\<close>

theorem missing_winner_and_isDraw_are_overwritten:
  "get_prop board_only_payload (utf16 ''winner'') = JUndefined
   \<and> get_prop board_only_payload (utf16 ''isDraw'') = JUndefined
   \<and> winner (updateFromPayload board_only_payload won_state) \<noteq> winner won_state
   \<and> isDraw (updateFromPayload board_only_payload drawn_state) \<noteq> isDraw drawn_state"
  by (simp add: board_only_payload_def won_state_def drawn_state_def tapped_state_def
      ready_state_def updateFromPayload_def Let_def nullish_to_null_def utf16_def
      board_after_tap_def)

text \<open>
  Claim C4, as amended. For every payload that has no valid \<^verbatim>\<open>nextPlayer\<close> but a valid
  9-element board, and whose id is falsy or converts to a string without throwing, payload
  adoption leaves nextPlayer as it was and replaces the board by the array of the payload.
\<close>

theorem board_without_nextPlayer:
  assumes "get_prop p (utf16 ''board'') = JArr b" and "length b = 9"
    and "\<not> valid_nextPlayer (get_prop p (utf16 ''nextPlayer''))"
    and "\<not> adoption_aborts p"
  shows "nextPlayer (updateFromPayload p s) = nextPlayer s \<and> board (updateFromPayload p s) = b"
  using assms by (simp add: upd_nextPlayer_invalid upd_board)

theorem board_without_nextPlayer_witness:
  "get_prop board_only_payload (utf16 ''board'') = JArr board_after_tap
   \<and> length board_after_tap = 9
   \<and> \<not> valid_nextPlayer (get_prop board_only_payload (utf16 ''nextPlayer''))
   \<and> \<not> adoption_aborts board_only_payload
   \<and> nextPlayer (updateFromPayload board_only_payload tapped_state) = Mark_O
   \<and> board (updateFromPayload board_only_payload ready_state) = board_after_tap"
proof -
  have b: "get_prop board_only_payload (utf16 ''board'') = JArr board_after_tap"
    by (simp add: board_only_payload_def)
  have l: "length board_after_tap = 9"
    by (simp add: board_after_tap_def)
  have n: "\<not> valid_nextPlayer (get_prop board_only_payload (utf16 ''nextPlayer''))"
    by (simp add: board_only_payload_def valid_nextPlayer_def utf16_def)
  have a: "\<not> adoption_aborts board_only_payload"
    by (simp add: board_only_payload_def adoption_aborts_def utf16_def)
  from board_without_nextPlayer [OF b l n a, of tapped_state]
    board_without_nextPlayer [OF b l n a, of ready_state] b l n a
  show ?thesis by (simp add: tapped_state_def)
qed

text \<open>
  The claim as it was stated fails when \<^verbatim>\<open>String(payload.id)\<close> throws. The payload
  \<^verbatim>\<open>{"id": {"toString": 0}, "board": [...]}\<close> has a valid board and no nextPlayer,
  yet the board of the state stays what it was: the throw happens in the first statement
  of the try block, and the catch skips the rest.
\<close>

theorem unconvertible_id_blocks_board:
  "get_prop unconvertible_id_payload (utf16 ''board'') = JArr board_after_tap
   \<and> length board_after_tap = 9
   \<and> \<not> valid_nextPlayer (get_prop unconvertible_id_payload (utf16 ''nextPlayer''))
   \<and> board (updateFromPayload unconvertible_id_payload ready_state) \<noteq> board_after_tap"
  by (simp add: unconvertible_id_payload_def unconvertible_id_def valid_nextPlayer_def
      updateFromPayload_def ready_state_def board_after_tap_def utf16_def eval_nat_numeral)

subsection \<open>The board has nine entries\<close>

lemma init_board_length:
  "length (board s) = 9 \<Longrightarrow> length (board (fst (init api m h c s))) = 9"
  by (simp add: init_def Let_def init_catch_def init_finally_def upd_board_length
      split: fetched.splits sum.splits)

lemma onCellPress_board_length:
  "length (board s) = 9 \<Longrightarrow> length (board (fst (onCellPress api i r s))) = 9"
  by (simp add: onCellPress_def Let_def handler_catch_def handler_finally_def upd_board_length
      split: fetched.splits sum.splits option.splits)

lemma onReset_board_length:
  "length (board s) = 9 \<Longrightarrow> length (board (fst (onReset api r s))) = 9"
  by (simp add: onReset_def Let_def handler_catch_def handler_finally_def upd_board_length
      split: fetched.splits sum.splits option.splits)

lemma step_board_length: "step s s' \<Longrightarrow> length (board s) = 9 \<Longrightarrow> length (board s') = 9"
  by (induction rule: step.induct)
     (simp_all add: init_board_length onCellPress_board_length onReset_board_length)

text \<open>
  Claim C5. The board always has exactly 9 entries. The initial state has nine, and every
  operation keeps the number: initialisation, a move and a reset, on their success paths
  (which adopt a payload) and on their error paths alike. So every state the component
  can reach has a board of nine entries, and adopting any further payload in such a state
  leaves nine entries, because the board is only replaced by an array whose length was
  checked to be 9.
\<close>

theorem board_always_nine:
  assumes "reachable s"
  shows "length (board s) = 9 \<and> length (board (updateFromPayload p s)) = 9"
proof -
  from assms have "length (board s) = 9"
  proof (induction rule: reachable.induct)
    case reachable_initial
    show ?case by (simp add: initial_state_def)
  next
    case (reachable_step s s')
    then show ?case by (simp add: step_board_length)
  qed
  then show ?thesis by (simp add: upd_board_length)
qed

theorem board_always_nine_witness:
  "reachable (fst (init api_example True (Resolved (json_response 200 scenario_payload))
                     (Resolved (json_response 201 scenario_payload)) initial_state))
   \<and> length (board (fst (init api_example True (Resolved (json_response 200 scenario_payload))
                     (Resolved (json_response 201 scenario_payload)) initial_state))) = 9"
proof -
  let ?s = "fst (init api_example True (Resolved (json_response 200 scenario_payload))
                   (Resolved (json_response 201 scenario_payload)) initial_state)"
  have r: "reachable ?s"
    by (rule reachable_step [OF reachable_initial step_init])
  from board_always_nine [OF r] r show ?thesis by simp
qed

subsection \<open>The game identifier is never cleared\<close>

lemma init_gameId_kept:
  "gameId s \<noteq> None \<Longrightarrow> gameId (fst (init api m h c s)) \<noteq> None"
  by (simp del: not_None_eq add: init_def Let_def init_catch_def init_finally_def upd_gameId_kept
      split: fetched.splits sum.splits)

lemma onCellPress_gameId_kept:
  "gameId s \<noteq> None \<Longrightarrow> gameId (fst (onCellPress api i r s)) \<noteq> None"
  by (simp del: not_None_eq add: onCellPress_def Let_def handler_catch_def handler_finally_def upd_gameId_kept
      split: fetched.splits sum.splits option.splits)

lemma onReset_gameId_kept:
  "gameId s \<noteq> None \<Longrightarrow> gameId (fst (onReset api r s)) \<noteq> None"
  by (simp del: not_None_eq add: onReset_def Let_def handler_catch_def handler_finally_def upd_gameId_kept
      split: fetched.splits sum.splits option.splits)

lemma step_gameId_kept: "step s s' \<Longrightarrow> gameId s \<noteq> None \<Longrightarrow> gameId s' \<noteq> None"
  by (induction rule: step.induct)
     (simp_all add: init_gameId_kept onCellPress_gameId_kept onReset_gameId_kept)

text \<open>
  Claim C9. Once gameId is not null, no operation sets it back to null. Payload adoption
  assigns gameId only when the payload's id is truthy, and then assigns a string; the
  error paths do not assign it. So after any number of runs of the three operations from
  a state with a game identifier, and after adopting any payload there, gameId is still
  not null.
\<close>

theorem gameId_never_reset:
  assumes "step\<^sup>*\<^sup>* s s'" and "gameId s \<noteq> None"
  shows "gameId s' \<noteq> None \<and> gameId (updateFromPayload p s') \<noteq> None"
proof -
  from assms have "gameId s' \<noteq> None"
    by (induction rule: rtranclp_induct) (simp_all add: step_gameId_kept)
  then show ?thesis by (simp add: upd_gameId_kept)
qed

theorem gameId_never_reset_witness:
  "step\<^sup>*\<^sup>* ready_state (fst (onReset api_example (Rejected Thrown_other) ready_state))
   \<and> gameId ready_state \<noteq> None
   \<and> gameId (fst (onReset api_example (Rejected Thrown_other) ready_state)) \<noteq> None
   \<and> gameId (updateFromPayload JNull
                (fst (onReset api_example (Rejected Thrown_other) ready_state))) \<noteq> None"
proof -
  have r: "step\<^sup>*\<^sup>* ready_state (fst (onReset api_example (Rejected Thrown_other) ready_state))"
    by (rule r_into_rtranclp) (rule step_reset)
  have g: "gameId ready_state \<noteq> None"
    by (simp add: ready_state_def)
  from gameId_never_reset [OF r g, of JNull] r g show ?thesis by simp
qed

subsection \<open>Guards of the cell handler\<close>

text \<open>
  Claim C3. Pressing a cell whose board entry is occupied (not null), or pressing any cell
  while canPlay is false (loading, a winner set, or a draw), or pressing when there is no
  gameId, sends no request and changes no state. This holds for every index, so for the
  nine cell indices 0..8 in particular; there \<open>board_at\<close> is the board entry itself.
\<close>

theorem guarded_press_is_noop:
  assumes "\<not> canPlay s \<or> gameId s = None \<or> gameId s = Some []
           \<or> board_at (board s) i \<noteq> JNull"
  shows "onCellPress api i r s = (s, [])"
  using assms by (auto simp add: onCellPress_def split: option.splits)

theorem guarded_press_is_noop_witness:
  "board_at (board tapped_state) 4 \<noteq> JNull
   \<and> onCellPress api_example 4 (Resolved (json_response 200 move_payload)) tapped_state
       = (tapped_state, [])
   \<and> \<not> canPlay won_state
   \<and> onCellPress api_example 0 (Resolved (json_response 200 move_payload)) won_state
       = (won_state, [])
   \<and> gameId initial_state = None
   \<and> onCellPress api_example 0 (Resolved (json_response 200 move_payload)) initial_state
       = (initial_state, [])"
proof -
  have occupied: "board_at (board tapped_state) 4 \<noteq> JNull"
    by (simp add: board_at_def tapped_state_def board_after_tap_def)
  have won: "\<not> canPlay won_state"
    by (simp add: canPlay_def won_state_def utf16_def)
  have no_game: "gameId initial_state = None"
    by (simp add: initial_state_def)
  from guarded_press_is_noop [of tapped_state 4 api_example "Resolved (json_response 200 move_payload)"]
       guarded_press_is_noop [of won_state 0 api_example "Resolved (json_response 200 move_payload)"]
       guarded_press_is_noop [of initial_state 0 api_example "Resolved (json_response 200 move_payload)"]
       occupied won no_game
  show ?thesis by blast
qed

text \<open>
  Claim C10. For every index outside 0..8 (negative, or 9 and above), the cell handler
  is a no-op: reading the nine-entry board out of range gives \<^verbatim>\<open>undefined\<close>, which is
  not \<^verbatim>\<open>null\<close>, so the empty-cell guard returns. No request is sent and the state is
  unchanged.
\<close>

theorem out_of_range_press_is_noop:
  assumes "length (board s) = 9" and "i < 0 \<or> 9 \<le> i"
  shows "board_at (board s) i = JUndefined \<and> onCellPress api i r s = (s, [])"
proof -
  from assms have u: "board_at (board s) i = JUndefined"
    by (auto simp add: board_at_def)
  then show ?thesis
    by (simp add: onCellPress_def split: option.splits)
qed

theorem out_of_range_press_is_noop_witness:
  "length (board ready_state) = 9 \<and> canPlay ready_state
   \<and> board_at (board ready_state) 9 = JUndefined
   \<and> onCellPress api_example 9 (Resolved (json_response 200 scenario_payload)) ready_state
       = (ready_state, [])"
proof -
  have l: "length (board ready_state) = 9"
    by (simp add: ready_state_def)
  have c: "canPlay ready_state"
    by (simp add: canPlay_def ready_state_def)
  have i: "(9::int) < 0 \<or> 9 \<le> (9::int)"
    by simp
  from out_of_range_press_is_noop [OF l i] l c show ?thesis by simp
qed

subsection \<open>Responses that are not ok\<close>

lemma error_prefix: "startsWith (utf16 ''Error: '' @ msg) (utf16 ''Error:'')"
  by (simp add: startsWith_def utf16_def)

lemma init_create_not_ok:
  assumes "ok hr" and "\<not> ok cr"
  shows "fst (init api m (Resolved hr) (Resolved cr) s) =
           (if m then s\<lparr>isLoading := False,
                        statusMessage := utf16 ''Error: '' @ (utf16 ''Failed to create game: '' @ decimal (status cr))\<rparr>
            else s\<lparr>isLoading := True, statusMessage := utf16 ''Creating game...''\<rparr>)"
  using assms by (simp add: init_def Let_def init_catch_def init_finally_def error_message_def)

lemma onCellPress_not_ok:
  assumes "\<not> ok r" and "snd (onCellPress api i (Resolved r) s) \<noteq> []"
  shows "fst (onCellPress api i (Resolved r) s) =
           s\<lparr>isLoading := False,
             statusMessage := utf16 ''Error: '' @
               error_message (failed_error (utf16 ''Move'') r) (utf16 ''Move failed'')\<rparr>"
  using assms
  by (auto simp add: onCellPress_def Let_def handler_catch_def handler_finally_def
      split: option.splits if_splits)

lemma onReset_not_ok:
  assumes "\<not> ok r" and "snd (onReset api (Resolved r) s) \<noteq> []"
  shows "fst (onReset api (Resolved r) s) =
           s\<lparr>isLoading := False,
             statusMessage := utf16 ''Error: '' @
               error_message (failed_error (utf16 ''Reset'') r) (utf16 ''Reset failed'')\<rparr>"
  using assms
  by (auto simp add: onReset_def Let_def handler_catch_def handler_finally_def
      split: option.splits if_splits)

text \<open>
  Claim C2. For every response with a status outside 200..299 from one of the three game
  endpoints (create, move, reset), the operation leaves board, winner and isDraw as they
  were and sets statusMessage to a string that starts with \<^verbatim>\<open>Error:\<close>. A response
  exists only if the request was sent, so for a move and a reset the guards have passed.
  The create request belongs to initialisation, whose catch block sets the message of the
  mounted view; once the root component is unmounted there is no state left to set, and
  the three fields are untouched then as well.
\<close>

theorem non_ok_response_is_an_error:
  "(ok hr \<and> \<not> ok cr \<longrightarrow>
      board (fst (init api m (Resolved hr) (Resolved cr) s)) = board s
      \<and> winner (fst (init api m (Resolved hr) (Resolved cr) s)) = winner s
      \<and> isDraw (fst (init api m (Resolved hr) (Resolved cr) s)) = isDraw s
      \<and> (m \<longrightarrow> startsWith (statusMessage (fst (init api m (Resolved hr) (Resolved cr) s)))
                  (utf16 ''Error:'')))
   \<and> (\<not> ok r \<and> snd (onCellPress api i (Resolved r) s) \<noteq> [] \<longrightarrow>
      board (fst (onCellPress api i (Resolved r) s)) = board s
      \<and> winner (fst (onCellPress api i (Resolved r) s)) = winner s
      \<and> isDraw (fst (onCellPress api i (Resolved r) s)) = isDraw s
      \<and> startsWith (statusMessage (fst (onCellPress api i (Resolved r) s))) (utf16 ''Error:''))
   \<and> (\<not> ok r \<and> snd (onReset api (Resolved r) s) \<noteq> [] \<longrightarrow>
      board (fst (onReset api (Resolved r) s)) = board s
      \<and> winner (fst (onReset api (Resolved r) s)) = winner s
      \<and> isDraw (fst (onReset api (Resolved r) s)) = isDraw s
      \<and> startsWith (statusMessage (fst (onReset api (Resolved r) s))) (utf16 ''Error:''))"
proof (intro conjI impI)
  assume a: "ok hr \<and> \<not> ok cr"
  let ?s' = "fst (init api m (Resolved hr) (Resolved cr) s)"
  from a have e: "?s' = (if m then s\<lparr>isLoading := False,
                        statusMessage := utf16 ''Error: '' @ (utf16 ''Failed to create game: '' @ decimal (status cr))\<rparr>
            else s\<lparr>isLoading := True, statusMessage := utf16 ''Creating game...''\<rparr>)"
    by (simp add: init_create_not_ok)
  show "board ?s' = board s" by (simp add: e)
  show "winner ?s' = winner s" by (simp add: e)
  show "isDraw ?s' = isDraw s" by (simp add: e)
  assume m
  with e show "startsWith (statusMessage ?s') (utf16 ''Error:'')"
    by (simp add: error_prefix)
next
  assume a: "\<not> ok r \<and> snd (onCellPress api i (Resolved r) s) \<noteq> []"
  let ?s' = "fst (onCellPress api i (Resolved r) s)"
  from a have e: "?s' = s\<lparr>isLoading := False,
             statusMessage := utf16 ''Error: '' @
               error_message (failed_error (utf16 ''Move'') r) (utf16 ''Move failed'')\<rparr>"
    by (simp add: onCellPress_not_ok)
  show "board ?s' = board s" by (simp add: e)
  show "winner ?s' = winner s" by (simp add: e)
  show "isDraw ?s' = isDraw s" by (simp add: e)
  show "startsWith (statusMessage ?s') (utf16 ''Error:'')"
    by (simp add: e error_prefix)
next
  assume a: "\<not> ok r \<and> snd (onReset api (Resolved r) s) \<noteq> []"
  let ?s' = "fst (onReset api (Resolved r) s)"
  from a have e: "?s' = s\<lparr>isLoading := False,
             statusMessage := utf16 ''Error: '' @
               error_message (failed_error (utf16 ''Reset'') r) (utf16 ''Reset failed'')\<rparr>"
    by (simp add: onReset_not_ok)
  show "board ?s' = board s" by (simp add: e)
  show "winner ?s' = winner s" by (simp add: e)
  show "isDraw ?s' = isDraw s" by (simp add: e)
  show "startsWith (statusMessage ?s') (utf16 ''Error:'')"
    by (simp add: e error_prefix)
qed

theorem non_ok_response_is_an_error_witness:
  "ok (json_response 200 JNull) \<and> \<not> ok (text_response 500 [])
   \<and> \<not> ok (text_response 400 (utf16 ''bad''))
   \<and> snd (onCellPress api_example 4 (Resolved (text_response 400 (utf16 ''bad''))) ready_state) \<noteq> []
   \<and> snd (onReset api_example (Resolved (text_response 400 (utf16 ''bad''))) ready_state) \<noteq> []
   \<and> startsWith (statusMessage (fst (init api_example True (Resolved (json_response 200 JNull))
                                       (Resolved (text_response 500 [])) ready_state)))
        (utf16 ''Error:'')
   \<and> board (fst (onCellPress api_example 4 (Resolved (text_response 400 (utf16 ''bad'')))
                   ready_state)) = board ready_state
   \<and> startsWith (statusMessage (fst (onCellPress api_example 4
                                       (Resolved (text_response 400 (utf16 ''bad''))) ready_state)))
        (utf16 ''Error:'')
   \<and> startsWith (statusMessage (fst (onReset api_example
                                       (Resolved (text_response 400 (utf16 ''bad''))) ready_state)))
        (utf16 ''Error:'')"
proof -
  have h: "ok (json_response 200 JNull) \<and> \<not> ok (text_response 500 [])"
    by (simp add: ok_def json_response_def text_response_def)
  have r: "\<not> ok (text_response 400 (utf16 ''bad''))"
    by (simp add: ok_def text_response_def)
  have p: "snd (onCellPress api_example 4 (Resolved (text_response 400 (utf16 ''bad'')))
                  ready_state) \<noteq> []"
    by code_simp
  have q: "snd (onReset api_example (Resolved (text_response 400 (utf16 ''bad''))) ready_state)
             \<noteq> []"
    by code_simp
  from non_ok_response_is_an_error
         [of "json_response 200 JNull" "text_response 500 []" api_example True ready_state
             "text_response 400 (utf16 ''bad'')" 4]
       h r p q
  show ?thesis by blast
qed

text \<open>
  Claim C7. If the health check returns a status that is not a success, initialisation
  sends only the health request and never the create-game request, gameId stays what it
  was, which is null at mount, and the mounted view records the error in its status
  message. With no gameId the board is unplayable: every cell press returns at the guard.
\<close>

theorem failed_health_check_stops_init:
  assumes "\<not> ok hr"
  shows "snd (init api m (Resolved hr) c s) = [health_request api]
     \<and> create_request api \<notin> set (snd (init api m (Resolved hr) c s))
     \<and> gameId (fst (init api m (Resolved hr) c s)) = gameId s
     \<and> (m \<longrightarrow> statusMessage (fst (init api m (Resolved hr) c s))
                = utf16 ''Error: Health check failed: '' @ decimal (status hr))
     \<and> (gameId s = None \<longrightarrow>
          onCellPress api' i r (fst (init api m (Resolved hr) c s))
            = (fst (init api m (Resolved hr) c s), []))"
proof -
  let ?s' = "fst (init api m (Resolved hr) c s)"
  have sent: "snd (init api m (Resolved hr) c s) = [health_request api]"
    using assms by (simp add: init_def Let_def)
  have diff: "create_request api \<noteq> health_request api"
    by (simp add: create_request_def health_request_def)
  have g: "gameId ?s' = gameId s"
    using assms by (simp add: init_def Let_def init_catch_def init_finally_def)
  have msg: "m \<longrightarrow> statusMessage ?s' = utf16 ''Error: Health check failed: '' @ decimal (status hr)"
    using assms
    by (simp add: init_def Let_def init_catch_def init_finally_def error_message_def utf16_def)
  have unplayable: "gameId s = None \<longrightarrow> onCellPress api' i r ?s' = (?s', [])"
    using g by (simp add: onCellPress_def)
  from sent diff g msg unplayable show ?thesis by simp
qed

theorem failed_health_check_stops_init_witness:
  "\<not> ok (text_response 503 [])
   \<and> snd (init api_example True (Resolved (text_response 503 [])) (Rejected Thrown_other)
            initial_state) = [health_request api_example]
   \<and> gameId (fst (init api_example True (Resolved (text_response 503 [])) (Rejected Thrown_other)
                    initial_state)) = None
   \<and> statusMessage (fst (init api_example True (Resolved (text_response 503 []))
                           (Rejected Thrown_other) initial_state))
       = utf16 ''Error: Health check failed: 503''
   \<and> onCellPress api_example 4 (Resolved (json_response 200 move_payload))
        (fst (init api_example True (Resolved (text_response 503 [])) (Rejected Thrown_other)
                initial_state))
       = (fst (init api_example True (Resolved (text_response 503 [])) (Rejected Thrown_other)
                 initial_state), [])"
proof -
  have n: "\<not> ok (text_response 503 [])"
    by (simp add: ok_def text_response_def)
  have g: "gameId initial_state = None"
    by (simp add: initial_state_def)
  have d: "utf16 ''Error: Health check failed: '' @ decimal (status (text_response 503 []))
             = utf16 ''Error: Health check failed: 503''"
    by (simp add: text_response_def decimal.simps utf16_def)
  from failed_health_check_stops_init
         [OF n, of api_example True "Rejected Thrown_other" initial_state api_example 4
            "Resolved (json_response 200 move_payload)"] n g d
  show ?thesis by simp
qed

subsection \<open>The base URL\<close>

lemma strip_decomp: "\<exists>k. s = strip_trailing_slashes s @ replicate k slash"
proof -
  let ?t = "takeWhile (\<lambda>c. c = slash) (rev s)"
  have "\<forall>c \<in> set ?t. c = slash"
    by (auto dest: set_takeWhileD)
  then have t: "replicate (length ?t) slash = ?t"
    by (simp add: replicate_length_same)
  have "rev s = ?t @ dropWhile (\<lambda>c. c = slash) (rev s)"
    by simp
  then have "s = rev (dropWhile (\<lambda>c. c = slash) (rev s)) @ rev ?t"
    by (metis rev_append rev_rev_ident)
  also have "rev ?t = replicate (length ?t) slash"
    using t by (metis rev_replicate)
  finally show ?thesis
    unfolding strip_trailing_slashes_def by blast
qed

lemma strip_no_trailing:
  "strip_trailing_slashes s = [] \<or> last (strip_trailing_slashes s) \<noteq> slash"
proof (cases "dropWhile (\<lambda>c. c = slash) (rev s) = []")
  case True
  then show ?thesis by (simp add: strip_trailing_slashes_def)
next
  case False
  then have "hd (dropWhile (\<lambda>c. c = slash) (rev s)) \<noteq> slash"
    using hd_dropWhile [of "\<lambda>c. c = slash" "rev s"] by simp
  with False show ?thesis
    by (simp add: strip_trailing_slashes_def last_rev)
qed

lemma API_BASE_fallback:
  "(if endsWith localhost_url api_suffix then localhost_url
    else strip_trailing_slashes localhost_url @ api_suffix) = utf16 ''http://localhost:3001/api''"
  by (simp add: endsWith_def localhost_url_def api_suffix_def utf16_def
      strip_trailing_slashes_def slash_def suffix_def)

lemma trim_empty: "trim [] = []"
  by (simp add: trim_def)

text \<open>
  Claim C6. API base resolution takes the URL from the environment when one is set, that
  is, when it is not empty after trimming, and the localhost fallback otherwise. When the
  chosen URL already ends with \<^verbatim>\<open>/api\<close> it is returned unchanged. When it does not,
  its trailing slashes are stripped and \<^verbatim>\<open>/api\<close> is appended: the result is
  \<open>r @ ''/api''\<close> where the chosen URL is \<open>r\<close> followed by slashes only and
  \<open>r\<close> does not end with a slash. The fallback resolves to
  \<^verbatim>\<open>http://localhost:3001/api\<close>.
\<close>

theorem API_BASE_resolution:
  "API_BASE None = utf16 ''http://localhost:3001/api''
   \<and> (trim u = [] \<longrightarrow> API_BASE (Some u) = utf16 ''http://localhost:3001/api'')
   \<and> (trim u \<noteq> [] \<and> endsWith u (utf16 ''/api'') \<longrightarrow> API_BASE (Some u) = u)
   \<and> (trim u \<noteq> [] \<and> \<not> endsWith u (utf16 ''/api'') \<longrightarrow>
        (\<exists>r k. u = r @ replicate k slash \<and> (r = [] \<or> last r \<noteq> slash)
               \<and> API_BASE (Some u) = r @ utf16 ''/api''))"
proof (intro conjI impI)
  show "API_BASE None = utf16 ''http://localhost:3001/api''"
    by (simp add: API_BASE_def Let_def API_BASE_fallback)
next
  assume "trim u = []"
  then show "API_BASE (Some u) = utf16 ''http://localhost:3001/api''"
    by (simp add: API_BASE_def Let_def API_BASE_fallback)
next
  assume a: "trim u \<noteq> [] \<and> endsWith u (utf16 ''/api'')"
  then have "u \<noteq> []" using trim_empty by auto
  with a show "API_BASE (Some u) = u"
    by (simp add: API_BASE_def Let_def api_suffix_def)
next
  assume a: "trim u \<noteq> [] \<and> \<not> endsWith u (utf16 ''/api'')"
  then have "u \<noteq> []" using trim_empty by auto
  with a have e: "API_BASE (Some u) = strip_trailing_slashes u @ utf16 ''/api''"
    by (simp add: API_BASE_def Let_def api_suffix_def)
  obtain k where "u = strip_trailing_slashes u @ replicate k slash"
    using strip_decomp by blast
  with e strip_no_trailing [of u]
  show "\<exists>r k. u = r @ replicate k slash \<and> (r = [] \<or> last r \<noteq> slash)
               \<and> API_BASE (Some u) = r @ utf16 ''/api''"
    by blast
qed

theorem API_BASE_resolution_witness:
  "(trim (utf16 ''  '') = []
    \<and> API_BASE (Some (utf16 ''  '')) = utf16 ''http://localhost:3001/api'')
   \<and> (trim (utf16 ''https://x.io/api'') \<noteq> []
    \<and> endsWith (utf16 ''https://x.io/api'') (utf16 ''/api'')
    \<and> API_BASE (Some (utf16 ''https://x.io/api'')) = utf16 ''https://x.io/api'')
   \<and> (trim (utf16 ''https://x.io//'') \<noteq> []
    \<and> \<not> endsWith (utf16 ''https://x.io//'') (utf16 ''/api'')
    \<and> (\<exists>r k. utf16 ''https://x.io//'' = r @ replicate k slash \<and> (r = [] \<or> last r \<noteq> slash)
              \<and> API_BASE (Some (utf16 ''https://x.io//'')) = r @ utf16 ''/api''))"
proof -
  have blank: "trim (utf16 ''  '') = []"
    by code_simp
  have with_api: "trim (utf16 ''https://x.io/api'') \<noteq> []
                  \<and> endsWith (utf16 ''https://x.io/api'') (utf16 ''/api'')"
    by code_simp
  have with_slashes: "trim (utf16 ''https://x.io//'') \<noteq> []
                      \<and> \<not> endsWith (utf16 ''https://x.io//'') (utf16 ''/api'')"
    by code_simp
  from API_BASE_resolution [of "utf16 ''  ''"]
       API_BASE_resolution [of "utf16 ''https://x.io/api''"]
       API_BASE_resolution [of "utf16 ''https://x.io//''"]
       blank with_api with_slashes
  show ?thesis by blast
qed

text \<open>The values in the last two cases, evaluated.\<close>

lemma API_BASE_examples:
  "API_BASE (Some (utf16 ''https://x.io//'')) = utf16 ''https://x.io/api''
   \<and> API_BASE (Some (utf16 ''https://x.io/api'')) = utf16 ''https://x.io/api''
   \<and> API_BASE (Some (utf16 ''https://x.io/api/'')) = utf16 ''https://x.io/api/api''"
  by code_simp

subsection \<open>What is shown after a game was created\<close>

lemma init_success:
  assumes "ok hr" and "ok cr" and "json_body cr = Inr p"
  shows "fst (init api True (Resolved hr) (Resolved cr) s) =
           (updateFromPayload p (s\<lparr>isLoading := True, statusMessage := utf16 ''Creating game...''\<rparr>))
             \<lparr>statusMessage := utf16 ''Game ready!'', isLoading := False\<rparr>"
  using assms by (simp add: init_def Let_def init_finally_def)

lemma truthy_nullish: "truthy (nullish_to_null v) = truthy v"
  by (simp add: nullish_to_null_def)

text \<open>
  Claim C8, as amended. After a successful create-game response whose payload has a valid
  9-element board, and whose id is falsy or converts to a string without throwing, the
  mounted view renders nine cells, each showing the fixed symbol of the payload's board
  entry at its position: the cross mark for \<^verbatim>\<open>'X'\<close>, the hollow circle for
  \<^verbatim>\<open>'O'\<close>, the white square for an empty entry (and for anything else). With no
  winner and no draw in the payload the status line shows the turn of the next player,
  and it is \<open>Turn:\<close> with the cross mark when the payload's nextPlayer is \<^verbatim>\<open>'X'\<close>.
\<close>

theorem created_game_is_rendered:
  assumes "ok hr" and "ok cr" and "json_body cr = Inr p"
    and "get_prop p (utf16 ''board'') = JArr b" and "length b = 9"
    and "\<not> adoption_aborts p"
  shows "rendered_cells (fst (init api True (Resolved hr) (Resolved cr) s)) = map toEmoji b
     \<and> length (rendered_cells (fst (init api True (Resolved hr) (Resolved cr) s))) = 9
     \<and> (\<forall>i<9. rendered_cells (fst (init api True (Resolved hr) (Resolved cr) s)) ! i =
            (if b ! i = JStr (utf16 ''X'') then cross_mark
             else if b ! i = JStr (utf16 ''O'') then hollow_circle
             else white_square))
     \<and> (\<not> truthy (get_prop p (utf16 ''winner'')) \<and> \<not> truthy (get_prop p (utf16 ''isDraw'')) \<longrightarrow>
          computedStatus (fst (init api True (Resolved hr) (Resolved cr) s)) =
            utf16 ''Turn: '' @
              (if nextPlayer (fst (init api True (Resolved hr) (Resolved cr) s)) = Mark_X
               then cross_mark else hollow_circle))
     \<and> (\<not> truthy (get_prop p (utf16 ''winner'')) \<and> \<not> truthy (get_prop p (utf16 ''isDraw''))
          \<and> get_prop p (utf16 ''nextPlayer'') = JStr (utf16 ''X'') \<longrightarrow>
          computedStatus (fst (init api True (Resolved hr) (Resolved cr) s)) =
            utf16 ''Turn: '' @ cross_mark)"
proof -
  let ?s0 = "s\<lparr>isLoading := True, statusMessage := utf16 ''Creating game...''\<rparr>"
  let ?s' = "fst (init api True (Resolved hr) (Resolved cr) s)"
  have e: "?s' = (updateFromPayload p ?s0)\<lparr>statusMessage := utf16 ''Game ready!'', isLoading := False\<rparr>"
    using assms(1-3) by (rule init_success)
  have b: "board ?s' = b"
    using assms(4-6) by (simp add: e upd_board)
  have w: "winner ?s' = nullish_to_null (get_prop p (utf16 ''winner''))"
    using assms(6) by (simp add: e upd_winner)
  have d: "isDraw ?s' = truthy (get_prop p (utf16 ''isDraw''))"
    using assms(6) by (simp add: e upd_isDraw)
  have l: "\<not> isLoading ?s'"
    by (simp add: e)
  have n: "get_prop p (utf16 ''nextPlayer'') = JStr (utf16 ''X'') \<longrightarrow> nextPlayer ?s' = Mark_X"
    using assms(6) by (simp add: e upd_nextPlayer)
  have cells: "rendered_cells ?s' = map toEmoji b"
    by (simp add: rendered_cells_def b)
  have each: "\<forall>i<9. rendered_cells ?s' ! i =
            (if b ! i = JStr (utf16 ''X'') then cross_mark
             else if b ! i = JStr (utf16 ''O'') then hollow_circle
             else white_square)"
    using assms(5) by (simp add: cells toEmoji_def)
  have turn: "\<not> truthy (get_prop p (utf16 ''winner'')) \<and> \<not> truthy (get_prop p (utf16 ''isDraw'')) \<longrightarrow>
          computedStatus ?s' =
            utf16 ''Turn: '' @ (if nextPlayer ?s' = Mark_X then cross_mark else hollow_circle)"
    using l by (simp add: computedStatus_def w d truthy_nullish)
  from cells each turn n assms(5) show ?thesis
    by simp
qed

theorem created_game_is_rendered_witness:
  "rendered_cells (fst (init api_example True (Resolved (json_response 200 JNull))
                          (Resolved (json_response 201 scenario_payload)) initial_state))
     = replicate 9 white_square
   \<and> computedStatus (fst (init api_example True (Resolved (json_response 200 JNull))
                          (Resolved (json_response 201 scenario_payload)) initial_state))
     = utf16 ''Turn: '' @ cross_mark"
proof -
  have h: "ok (json_response 200 JNull)"
    by (simp add: ok_def json_response_def)
  have c: "ok (json_response 201 scenario_payload)"
    by (simp add: ok_def json_response_def)
  have j: "json_body (json_response 201 scenario_payload) = Inr scenario_payload"
    by (simp add: json_response_def)
  have b: "get_prop scenario_payload (utf16 ''board'') = JArr (replicate 9 JNull)"
    by (simp add: scenario_payload_def utf16_def)
  have l: "length (replicate 9 JNull) = 9"
    by simp
  have a: "\<not> adoption_aborts scenario_payload"
    by (simp add: adoption_aborts_def scenario_payload_def utf16_def g1_def)
  have f: "\<not> truthy (get_prop scenario_payload (utf16 ''winner''))
           \<and> \<not> truthy (get_prop scenario_payload (utf16 ''isDraw''))
           \<and> get_prop scenario_payload (utf16 ''nextPlayer'') = JStr (utf16 ''X'')"
    by (simp add: scenario_payload_def utf16_def)
  have t: "map toEmoji (replicate 9 JNull) = replicate 9 white_square"
    by (simp add: toEmoji_def)
  note shown = created_game_is_rendered [OF h c j b l a, of api_example initial_state]
  from shown have cells:
    "rendered_cells (fst (init api_example True (Resolved (json_response 200 JNull))
                            (Resolved (json_response 201 scenario_payload)) initial_state))
       = map toEmoji (replicate 9 JNull)"
    by (rule conjunct1)
  from shown f have status:
    "computedStatus (fst (init api_example True (Resolved (json_response 200 JNull))
                            (Resolved (json_response 201 scenario_payload)) initial_state))
       = utf16 ''Turn: '' @ cross_mark"
    by blast
  from cells status t show ?thesis
    by (simp only:)
qed

text \<open>
  The claim as it was stated fails when \<^verbatim>\<open>String(payload.id)\<close> throws: the create
  response is successful and carries a valid board with \<^verbatim>\<open>'X'\<close> at position 4, but
  adoption stops before the board is assigned and cell 4 shows the white square.
\<close>

theorem unconvertible_id_blocks_rendering:
  "ok (json_response 200 JNull) \<and> ok (json_response 201 unconvertible_id_payload)
   \<and> get_prop unconvertible_id_payload (utf16 ''board'') = JArr board_after_tap
   \<and> length board_after_tap = 9
   \<and> board_after_tap ! 4 = JStr (utf16 ''X'')
   \<and> rendered_cells (fst (init api_example True (Resolved (json_response 200 JNull))
                            (Resolved (json_response 201 unconvertible_id_payload))
                            initial_state)) ! 4 = white_square
   \<and> white_square \<noteq> cross_mark"
  by code_simp

text \<open>
  The scenario of the specification, evaluated: the create response leads to the ready
  state; a tap on cell 4 sends \<^verbatim>\<open>{"index":4}\<close> to the move endpoint, and after the
  move response cell 4 shows the cross mark and the status is the turn of the hollow circle.
\<close>

lemma scenario_tap:
  "onCellPress api_example 4 (Resolved (json_response 200 move_payload)) ready_state
     = (tapped_state,
        [\<lparr> req_method = POST, req_url = utf16 ''http://localhost:3001/api/games/g1/move/'',
           req_json_header = True,
           req_body = Some (utf16 ''{'' @ [0x22] @ utf16 ''index'' @ [0x22] @ utf16 '':4}'') \<rparr>])
   \<and> rendered_cells tapped_state ! 4 = cross_mark
   \<and> computedStatus tapped_state = utf16 ''Turn: '' @ hollow_circle"
  by code_simp

lemma scenario_create:
  "fst (init api_example True (Resolved (json_response 200 JNull))
                          (Resolved (json_response 201 scenario_payload)) initial_state) = ready_state"
  by code_simp

end
